theory Spec2Isabelle
  imports Complex_Main "HOL-Library.Multiset"
begin

section \<open>Python values and library calls used by the script\<close>

text \<open>
  The script \<^verbatim>\<open>jenkins_top_jobs_pyjenkins.py\<close> is embedded function by function.
  Python integers are \<open>int\<close>. Python floats are modelled as exact real numbers: the
  binary rounding error of a float operation and the values \<open>nan\<close> and \<open>inf\<close> are
  outside the model (Jenkins sends durations and timestamps as integers).
  An exception is a value of the type \<open>error\<close>, returned on the left of a sum.
\<close>

datatype error =
    OutOfRange
  | OverflowError
  | KeyError
  | NotFoundException
  | JenkinsException

subsection \<open>Strings\<close>

text \<open>\<^verbatim>\<open>s.rstrip("/")\<close>: the string without its trailing slashes.\<close>

definition rstrip_slash :: "string \<Rightarrow> string" where
  "rstrip_slash s = rev (dropWhile (\<lambda>c. c = CHR ''/'') (rev s))"

text \<open>\<^verbatim>\<open>name.replace("/", "/job/")\<close>.\<close>

definition replace_slash :: "string \<Rightarrow> string" where
  "replace_slash s = concat (map (\<lambda>c. if c = CHR ''/'' then ''/job/'' else [c]) s)"

text \<open>The decimal digits of a natural number, as an f-string prints an integer.\<close>

fun digits :: "nat \<Rightarrow> string" where
  "digits n =
     (if n < 10 then [''0123456789'' ! n]
      else digits (n div 10) @ [''0123456789'' ! (n mod 10)])"

declare digits.simps [simp del]

definition str_int :: "int \<Rightarrow> string" where
  "str_int i = (if i < 0 then CHR ''-'' # digits (nat (- i)) else digits (nat i))"

subsection \<open>Numbers\<close>

text \<open>\<^verbatim>\<open>int(x)\<close> of a float: truncation toward zero.\<close>

definition py_int :: "real \<Rightarrow> int" where
  "py_int x = (if 0 \<le> x then \<lfloor>x\<rfloor> else \<lceil>x\<rceil>)"

text \<open>\<^verbatim>\<open>divmod(a, b)\<close> on integers: floor division and its remainder.\<close>

definition py_divmod :: "int \<Rightarrow> int \<Rightarrow> int \<times> int" where
  "py_divmod a b = (a div b, a mod b)"

text \<open>
  \<^verbatim>\<open>round(x, 2)\<close>: the nearest multiple of 0.01, a tie going to the even
  hundredth. Python rounds the binary float, which for a decimal tie such as 2.675 lies
  a little beside the decimal value; the lemmas about \<open>round2\<close> below use only that it
  is monotone, moves a value by at most 0.005 and keeps a multiple of 0.01.
\<close>

definition round_half_even :: "real \<Rightarrow> int" where
  "round_half_even y =
     (let f = \<lfloor>y\<rfloor>; d = y - of_int f
      in if d < 1 / 2 then f
         else if 1 / 2 < d then f + 1
         else if even f then f else f + 1)"

definition round2 :: "real \<Rightarrow> real" where
  "round2 x = of_int (round_half_even (x * 100)) / 100"

text \<open>
  \<^verbatim>\<open>xs[:n]\<close> and \<^verbatim>\<open>DataFrame.head(n)\<close>: the first \<open>n\<close> items, and for a
  negative \<open>n\<close> all items but the last \<open>-n\<close>.
\<close>

definition slice_to :: "int \<Rightarrow> 'a list \<Rightarrow> 'a list" where
  "slice_to n xs =
     (if 0 \<le> n then take (nat n) xs else take (length xs - nat (- n)) xs)"

subsection \<open>Instants\<close>

text \<open>
  A \<^verbatim>\<open>datetime\<close> in UTC is the number of microseconds since the epoch; the type
  holds the years 1 to 9999. \<^verbatim>\<open>datetime.fromtimestamp(ts_ms / 1000, tz=utc)\<close>
  raises for a timestamp outside these years (ValueError: year out of range, or
  OverflowError beyond the platform's time_t); \<open>OutOfRange\<close> stands for both.
  Inside these years the model converts exactly; CPython rounds the float quotient to
  the microsecond.
\<close>

type_synonym datetime = int

definition datetime_min :: datetime where
  "datetime_min = - 62135596800000000"

definition datetime_max :: datetime where
  "datetime_max = 253402300799999999"

definition fromtimestamp_ms :: "int \<Rightarrow> error + datetime" where
  "fromtimestamp_ms ts_ms =
     (if datetime_min \<le> ts_ms * 1000 \<and> ts_ms * 1000 \<le> datetime_max
      then Inr (ts_ms * 1000) else Inl OutOfRange)"

text \<open>
  \<^verbatim>\<open>now - timedelta(days=days)\<close>: a timedelta holds at most 999999999 days, and
  the difference must be a datetime; both failures are OverflowError.
\<close>

definition minus_days :: "datetime \<Rightarrow> int \<Rightarrow> error + datetime" where
  "minus_days now days =
     (if 999999999 < \<bar>days\<bar> then Inl OverflowError
      else if now - days * 86400000000 < datetime_min
            \<or> datetime_max < now - days * 86400000000 then Inl OverflowError
      else Inr (now - days * 86400000000))"

section \<open>The time window and the runtime formatter\<close>

text \<open>
  \<^verbatim>\<open>within_window(ts_ms, since_dt)\<close>, lines 28 to 33. \<^verbatim>\<open>not since_dt\<close> holds
  exactly when \<open>since_dt\<close> is None: a datetime is never falsy.
\<close>

definition within_window :: "int \<Rightarrow> datetime option \<Rightarrow> error + bool" where
  "within_window ts_ms since_dt =
     (case since_dt of
        None \<Rightarrow> Inr True
      | Some since \<Rightarrow>
          (case fromtimestamp_ms ts_ms of
             Inl e \<Rightarrow> Inl e
           | Inr ts \<Rightarrow> Inr (since \<le> ts)))"

text \<open>
  The first lines of \<^verbatim>\<open>collect_stats\<close> (114 to 116):
  \<^verbatim>\<open>since_dt = None; if days and days > 0: since_dt = now - timedelta(days=days)\<close>.
\<close>

definition window_start :: "datetime \<Rightarrow> int \<Rightarrow> error + datetime option" where
  "window_start now days =
     (if days \<noteq> 0 \<and> 0 < days
      then (case minus_days now days of Inl e \<Rightarrow> Inl e | Inr d \<Rightarrow> Inr (Some d))
      else Inr None)"

text \<open>\<^verbatim>\<open>fmt_seconds(sec)\<close>, lines 36 to 45.\<close>

definition fmt_seconds :: "real \<Rightarrow> string" where
  "fmt_seconds sec =
     (if sec = 0 \<or> sec \<le> 0 then ''0s''
      else
        (case py_divmod (py_int sec) 60 of
           (m0, s) \<Rightarrow>
             (case py_divmod m0 60 of
                (h, m) \<Rightarrow>
                  if h \<noteq> 0 then
                    str_int h @ ''h '' @ str_int m @ ''m '' @ str_int s @ ''s''
                  else if m \<noteq> 0 then str_int m @ ''m '' @ str_int s @ ''s''
                  else str_int s @ ''s'')))"

section \<open>What a Jenkins controller answers\<close>

text \<open>
  The records that python-jenkins returns are dictionaries; a field that may be absent
  or null is an option. The fields have the types in which Jenkins sends them: a
  build's \<open>timestamp\<close> and \<open>duration\<close> are integers, in milliseconds, and its
  \<open>result\<close> is a string or null.
\<close>

record build_info =
  timestamp :: "int option"
  duration :: "int option"
  result :: "string option"

text \<open>
  \<open>info_builds\<close> is the list under the key \<^verbatim>\<open>"builds"\<close>, in the order the API gives
  it, and empty when the key is missing; each entry holds the build's
  \<^verbatim>\<open>"number"\<close>, None when that key is missing.
\<close>

record job_info =
  url :: "string option"
  info_builds :: "int option list"

record job =
  fullname :: "string option"
  name :: "string option"

text \<open>
  A client \<open>jc\<close> is what its four calls answer during one scan: an exception or a value.
\<close>

record client =
  get_whoami :: "error + unit"
  get_all_jobs :: "error + job list"
  get_job_info :: "string \<Rightarrow> error + job_info"
  get_build_info :: "string \<Rightarrow> int \<Rightarrow> error + build_info"

text \<open>One dictionary of \<open>rows\<close>, lines 96 to 108.\<close>

record row =
  controller :: string
  job_name :: string
  job_url :: string
  builds :: int
  failures :: int
  failure_rate :: real
  total_runtime_seconds :: real
  avg_runtime_seconds :: real
  longest_runtime_seconds :: real

section \<open>Scanning one controller\<close>

text \<open>Line 58: \<^verbatim>\<open>name = job.get("fullname") or job.get("name")\<close>.\<close>

definition job_key :: "job \<Rightarrow> string option" where
  "job_key j =
     (case fullname j of
        None \<Rightarrow> name j
      | Some s \<Rightarrow> if s \<noteq> [] then Some s else name j)"

text \<open>
  \<^verbatim>\<open>binfo.get("timestamp", 0)\<close>, and the loop of lines 72 to 78 over
  \<open>builds_meta\<close>: a missing number (KeyError), a failed \<^verbatim>\<open>get_build_info\<close> and
  an exception of \<open>within_window\<close> are all caught at line 77 and skip the build.
\<close>

definition build_timestamp :: "build_info \<Rightarrow> int" where
  "build_timestamp binfo = (case timestamp binfo of None \<Rightarrow> 0 | Some t \<Rightarrow> t)"

fun fetch_builds ::
  "client \<Rightarrow> string \<Rightarrow> datetime option \<Rightarrow> int option list \<Rightarrow> build_info list" where
  "fetch_builds jc nm since_dt [] = []"
| "fetch_builds jc nm since_dt (b # builds_meta) =
     (case b of
        None \<Rightarrow> fetch_builds jc nm since_dt builds_meta
      | Some number \<Rightarrow>
          (case get_build_info jc nm number of
             Inl e \<Rightarrow> fetch_builds jc nm since_dt builds_meta
           | Inr binfo \<Rightarrow>
               (case within_window (build_timestamp binfo) since_dt of
                  Inl e \<Rightarrow> fetch_builds jc nm since_dt builds_meta
                | Inr inside \<Rightarrow>
                    if inside then binfo # fetch_builds jc nm since_dt builds_meta
                    else fetch_builds jc nm since_dt builds_meta)))"

text \<open>\<^verbatim>\<open>(b.get("duration") or 0) / 1000.0\<close>.\<close>

definition duration_seconds :: "build_info \<Rightarrow> real" where
  "duration_seconds b = of_int (case duration b of None \<Rightarrow> 0 | Some d \<Rightarrow> d) / 1000"

text \<open>\<^verbatim>\<open>str(b.get("result"))\<close>: None prints as the text \<open>None\<close>.\<close>

definition str_result :: "string option \<Rightarrow> string" where
  "str_result r = (case r of None \<Rightarrow> ''None'' | Some s \<Rightarrow> s)"

text \<open>The condition of lines 87 to 91.\<close>

definition counts_as_failure :: "build_info \<Rightarrow> bool" where
  "counts_as_failure b \<longleftrightarrow>
     str_result (result b) \<notin> set [''SUCCESS'', ''ABORTED'', ''None'']"

text \<open>\<^verbatim>\<open>max(values, default=0.0)\<close>.\<close>

fun max_default :: "real list \<Rightarrow> real" where
  "max_default [] = 0"
| "max_default (x # xs) = fold max xs x"

text \<open>Line 94: the job's own url, or one built from the controller's.\<close>

definition make_job_url :: "string \<Rightarrow> string \<Rightarrow> job_info \<Rightarrow> string" where
  "make_job_url controller_url nm info =
     (case url info of
        Some u \<Rightarrow>
          if u \<noteq> [] then u
          else rstrip_slash controller_url @ ''/job/'' @ replace_slash nm
      | None \<Rightarrow> rstrip_slash controller_url @ ''/job/'' @ replace_slash nm)"

text \<open>
  Lines 83 to 108: the statistics of the in-window builds \<open>bs\<close> of one job. Line 80
  has left the loop body when \<open>bs\<close> is empty, so \<open>count\<close> is positive wherever the
  source divides by it.
\<close>

definition job_row :: "string \<Rightarrow> string \<Rightarrow> job_info \<Rightarrow> build_info list \<Rightarrow> row" where
  "job_row controller_url nm info bs =
     (let count = int (length bs);
          total_runtime = sum_list (map duration_seconds bs);
          avg_runtime = (if count \<noteq> 0 then total_runtime / of_int count else 0);
          longest = max_default (map duration_seconds bs);
          fails = int (length (filter counts_as_failure bs))
      in \<lparr> controller = controller_url,
           job_name = nm,
           job_url = make_job_url controller_url nm info,
           builds = count,
           failures = fails,
           failure_rate = round2 (of_int fails / of_int count * 100),
           total_runtime_seconds = round2 total_runtime,
           avg_runtime_seconds = round2 avg_runtime,
           longest_runtime_seconds = round2 longest \<rparr>)"

text \<open>
  The body of the loop over the jobs, lines 58 to 108: None where the source says
  \<^verbatim>\<open>continue\<close>, the appended row otherwise. Line 70 cuts the build list to
  \<^verbatim>\<open>[:max_builds]\<close> before any build is fetched.
\<close>

definition scan_job ::
  "client \<Rightarrow> string \<Rightarrow> int \<Rightarrow> datetime option \<Rightarrow> job \<Rightarrow> row option" where
  "scan_job jc controller_url max_builds since_dt j =
     (case job_key j of
        None \<Rightarrow> None
      | Some nm \<Rightarrow>
          if nm = [] then None
          else
            (case get_job_info jc nm of
               Inl e \<Rightarrow> None
             | Inr info \<Rightarrow>
                 (let bs = fetch_builds jc nm since_dt (slice_to max_builds (info_builds info))
                  in if bs = [] then None
                     else Some (job_row controller_url nm info bs))))"

text \<open>
  \<^verbatim>\<open>collect_controller_jobs\<close>, lines 48 to 110. An exception of
  \<^verbatim>\<open>get_all_jobs\<close> is not caught here. The pause after every fiftieth job changes
  no value and is left out.
\<close>

fun scan_jobs ::
  "client \<Rightarrow> string \<Rightarrow> int \<Rightarrow> datetime option \<Rightarrow> job list \<Rightarrow> row list" where
  "scan_jobs jc controller_url max_builds since_dt [] = []"
| "scan_jobs jc controller_url max_builds since_dt (j # jobs) =
     (case scan_job jc controller_url max_builds since_dt j of
        None \<Rightarrow> scan_jobs jc controller_url max_builds since_dt jobs
      | Some r \<Rightarrow> r # scan_jobs jc controller_url max_builds since_dt jobs)"

definition collect_controller_jobs ::
  "client \<Rightarrow> string \<Rightarrow> int \<Rightarrow> datetime option \<Rightarrow> error + row list" where
  "collect_controller_jobs jc controller_url max_builds since_dt =
     (case get_all_jobs jc of
        Inl e \<Rightarrow> Inl e
      | Inr jobs \<Rightarrow> Inr (scan_jobs jc controller_url max_builds since_dt jobs))"

section \<open>Scanning all controllers\<close>

text \<open>
  \<open>jenkins base user token\<close> is the client \<^verbatim>\<open>jenkins.Jenkins(base, username=user,
  password=token)\<close>. The body of the loop of lines 119 to 137 gives the rows that one
  controller adds to \<open>all_rows\<close>: none after a failed \<^verbatim>\<open>get_whoami\<close> or a failed scan.
\<close>

type_synonym jenkins = "string \<Rightarrow> string \<Rightarrow> string \<Rightarrow> client"

definition scan_controller ::
  "jenkins \<Rightarrow> string \<Rightarrow> string \<Rightarrow> int \<Rightarrow> datetime option \<Rightarrow> string \<Rightarrow> row list" where
  "scan_controller jenkins user token max_builds since_dt base0 =
     (let base = rstrip_slash base0; jc = jenkins base user token
      in case get_whoami jc of
           Inl e \<Rightarrow> []
         | Inr who \<Rightarrow>
             (case collect_controller_jobs jc base max_builds since_dt of
                Inl e \<Rightarrow> []
              | Inr rows \<Rightarrow> rows))"

fun scan_controllers ::
  "jenkins \<Rightarrow> string \<Rightarrow> string \<Rightarrow> int \<Rightarrow> datetime option \<Rightarrow> string list \<Rightarrow> row list" where
  "scan_controllers jenkins user token max_builds since_dt [] = []"
| "scan_controllers jenkins user token max_builds since_dt (base # controllers) =
     scan_controller jenkins user token max_builds since_dt base
       @ scan_controllers jenkins user token max_builds since_dt controllers"

text \<open>
  \<^verbatim>\<open>collect_stats\<close>, lines 113 to 139; \<open>now\<close> is the clock read at line 116.
  \<open>verify_tls\<close> is a parameter that the function never reads.
\<close>

definition collect_stats ::
  "jenkins \<Rightarrow> datetime \<Rightarrow> string list \<Rightarrow> string \<Rightarrow> string \<Rightarrow> bool \<Rightarrow> int \<Rightarrow> int
     \<Rightarrow> error + row list" where
  "collect_stats jenkins now controllers user token verify_tls max_builds days =
     (case window_start now days of
        Inl e \<Rightarrow> Inl e
      | Inr since_dt \<Rightarrow>
          Inr (scan_controllers jenkins user token max_builds since_dt controllers))"

section \<open>Ranking\<close>

text \<open>The choices of \<^verbatim>\<open>--sort\<close> and the column each one names.\<close>

datatype sort_choice =
    By_builds
  | By_total_runtime_seconds
  | By_avg_runtime_seconds
  | By_longest_runtime_seconds

fun column :: "sort_choice \<Rightarrow> row \<Rightarrow> real" where
  "column By_builds r = of_int (builds r)"
| "column By_total_runtime_seconds r = total_runtime_seconds r"
| "column By_avg_runtime_seconds r = avg_runtime_seconds r"
| "column By_longest_runtime_seconds r = longest_runtime_seconds r"

text \<open>
  Line 182: \<^verbatim>\<open>df.sort_values(by=args.sort, ascending=False)\<close>. pandas is not
  part of the script; the call is modelled by what pandas documents for it. It leaves
  \<open>kind\<close> at its default, quicksort, which the documentation lists as not stable
  (only mergesort and stable are): the same rows come back in descending order of the
  column, and the order among rows with equal values is whatever NumPy's quicksort
  leaves; it swaps equal elements while it partitions. The call is therefore a relation
  between the frame and the frames it may return. The column holds no \<open>nan\<close>.
\<close>

definition sort_values_descending :: "('a \<Rightarrow> real) \<Rightarrow> 'a list \<Rightarrow> 'a list \<Rightarrow> bool" where
  "sort_values_descending key df out \<longleftrightarrow>
     mset out = mset df \<and> sorted_wrt (\<lambda>a b. key b \<le> key a) out"

text \<open>One line of the printed preview, lines 188 to 196.\<close>

definition preview_row :: "row \<Rightarrow> string \<times> string \<times> int \<times> real \<times> string \<times> string" where
  "preview_row r =
     (controller r, job_name r, builds r, failure_rate r,
      fmt_seconds (avg_runtime_seconds r), fmt_seconds (longest_runtime_seconds r))"

text \<open>
  Lines 182 to 196 of \<^verbatim>\<open>main\<close>, reached when \<open>rows\<close> is not empty:
  \<open>df_sorted\<close> is written to the files, \<open>top_preview\<close> is printed.
  \<^verbatim>\<open>head(args.top)\<close> is \<open>slice_to\<close>.
\<close>

definition rank ::
  "sort_choice \<Rightarrow> int \<Rightarrow> row list \<Rightarrow> row list \<Rightarrow>
     (string \<times> string \<times> int \<times> real \<times> string \<times> string) list \<Rightarrow> bool" where
  "rank sort_by top_n rows df_sorted top_preview \<longleftrightarrow>
     sort_values_descending (column sort_by) rows df_sorted
     \<and> top_preview = map preview_row (slice_to top_n df_sorted)"

text \<open>
  The order the specification describes: descending by the key, rows with equal keys in
  their original order. It is used only to compare it with what line 182 may return.
\<close>

definition stable_descending :: "('a \<Rightarrow> real) \<Rightarrow> 'a list \<Rightarrow> 'a list" where
  "stable_descending key df = sort_key (\<lambda>r. - key r) df"

text \<open>
  The decomposition the specification describes for the formatter: hours, minutes and
  seconds of a whole number of seconds, leading units that are zero left out.
\<close>

definition hms :: "nat \<Rightarrow> string" where
  "hms n =
     (if n div 3600 \<noteq> 0 then
        digits (n div 3600) @ ''h '' @ digits (n div 60 mod 60) @ ''m ''
          @ digits (n mod 60) @ ''s''
      else if n div 60 mod 60 \<noteq> 0 then
        digits (n div 60 mod 60) @ ''m '' @ digits (n mod 60) @ ''s''
      else digits (n mod 60) @ ''s'')"

section \<open>Example data\<close>

text \<open>
  Controller A has the job \<open>build\<close> with three builds of 60, 120 and 180 seconds and the
  results SUCCESS, FAILURE and ABORTED, and the job \<open>nightly\<close> whose only build is a year
  older. Controller B refuses the credentials.
\<close>

definition build_1 :: build_info where
  "build_1 =
     \<lparr> timestamp = Some 1700000000000, duration = Some 60000, result = Some ''SUCCESS'' \<rparr>"

definition build_2 :: build_info where
  "build_2 =
     \<lparr> timestamp = Some 1700000100000, duration = Some 120000, result = Some ''FAILURE'' \<rparr>"

definition build_3 :: build_info where
  "build_3 =
     \<lparr> timestamp = Some 1700000200000, duration = Some 180000, result = Some ''ABORTED'' \<rparr>"

definition build_7 :: build_info where
  "build_7 =
     \<lparr> timestamp = Some 1668464000000, duration = Some 5000, result = Some ''UNSTABLE'' \<rparr>"

definition job_build :: job where
  "job_build = \<lparr> fullname = Some ''build'', name = Some ''build'' \<rparr>"

definition job_nightly :: job where
  "job_nightly = \<lparr> fullname = None, name = Some ''nightly'' \<rparr>"

definition info_build :: job_info where
  "info_build = \<lparr> url = None, info_builds = [Some 3, Some 2, Some 1] \<rparr>"

definition info_nightly :: job_info where
  "info_nightly = \<lparr> url = Some ''https://a.example.com/job/nightly/'', info_builds = [Some 7] \<rparr>"

definition client_a :: client where
  "client_a =
     \<lparr> get_whoami = Inr (),
       get_all_jobs = Inr [job_build, job_nightly],
       get_job_info = (\<lambda>nm.
          if nm = ''build'' then Inr info_build
          else if nm = ''nightly'' then Inr info_nightly
          else Inl NotFoundException),
       get_build_info = (\<lambda>nm number.
          if nm = ''build'' \<and> number = 1 then Inr build_1
          else if nm = ''build'' \<and> number = 2 then Inr build_2
          else if nm = ''build'' \<and> number = 3 then Inr build_3
          else if nm = ''nightly'' \<and> number = 7 then Inr build_7
          else Inl NotFoundException) \<rparr>"

definition client_b :: client where
  "client_b =
     \<lparr> get_whoami = Inl JenkinsException,
       get_all_jobs = Inl JenkinsException,
       get_job_info = (\<lambda>nm. Inl JenkinsException),
       get_build_info = (\<lambda>nm number. Inl JenkinsException) \<rparr>"

definition two_controllers :: jenkins where
  "two_controllers base user token =
     (if base = ''https://a.example.com'' then client_a else client_b)"

text \<open>The clock of the example run, and the start of its window of 30 days.\<close>

definition now_0 :: datetime where
  "now_0 = 1700000300000000"

definition since_0 :: datetime where
  "since_0 = 1697408300000000"

definition row_a :: row where
  "row_a =
     \<lparr> controller = ''https://a.example.com'',
       job_name = ''build'',
       job_url = ''https://a.example.com/job/build'',
       builds = 3,
       failures = 1,
       failure_rate = 3333 / 100,
       total_runtime_seconds = 360,
       avg_runtime_seconds = 120,
       longest_runtime_seconds = 180 \<rparr>"

text \<open>Eighteen jobs with five builds each, and one order in which they may be ranked.\<close>

definition tied_row :: "nat \<Rightarrow> row" where
  "tied_row i =
     \<lparr> controller = ''https://a.example.com'',
       job_name = ''job-'' @ digits i,
       job_url = ''https://a.example.com/job/job-'' @ digits i,
       builds = 5,
       failures = 0,
       failure_rate = 0,
       total_runtime_seconds = 300,
       avg_runtime_seconds = 60,
       longest_runtime_seconds = 60 \<rparr>"

definition tied_rows :: "row list" where
  "tied_rows =
     map tied_row [0, 1, 2, 3, 4, 5, 6, 7, 8, 9, 10, 11, 12, 13, 14, 15, 16, 17]"

definition tied_ranked :: "row list" where
  "tied_ranked =
     map tied_row [0, 1, 16, 15, 14, 13, 12, 11, 10, 9, 8, 7, 6, 5, 4, 3, 2, 17]"

section \<open>The runtime formatter\<close>

lemma str_int_of_nat: "str_int (int n) = digits n"
  by (simp add: str_int_def)

lemma fmt_seconds_nonpos: "sec \<le> 0 \<Longrightarrow> fmt_seconds sec = ''0s''"
  by (simp add: fmt_seconds_def)

text \<open>
  For a positive argument the two \<open>divmod\<close> steps of the source give the hours,
  minutes and seconds of the whole seconds below it.
\<close>

lemma fmt_seconds_pos:
  assumes "0 < sec"
  shows "fmt_seconds sec = hms (nat \<lfloor>sec\<rfloor>)"
proof -
  from assms have "0 \<le> \<lfloor>sec\<rfloor>" by simp
  then obtain n where n: "\<lfloor>sec\<rfloor> = int n"
    using nonneg_int_cases by blast
  have d1: "int n div 60 div 60 = int (n div 3600)"
    by (simp add: zdiv_int div_mult2_eq)
  have d2: "int n div 60 mod 60 = int (n div 60 mod 60)"
    by (simp add: zdiv_int zmod_int)
  have d3: "int n mod 60 = int (n mod 60)"
    by (simp add: zmod_int)
  from assms have "fmt_seconds sec =
    (if int (n div 3600) \<noteq> 0 then
       str_int (int (n div 3600)) @ ''h '' @ str_int (int (n div 60 mod 60)) @ ''m ''
         @ str_int (int (n mod 60)) @ ''s''
     else if int (n div 60 mod 60) \<noteq> 0 then
       str_int (int (n div 60 mod 60)) @ ''m '' @ str_int (int (n mod 60)) @ ''s''
     else str_int (int (n mod 60)) @ ''s'')"
    by (simp add: fmt_seconds_def py_divmod_def py_int_def n d1 d2 d3)
  then show ?thesis
    by (simp add: str_int_of_nat hms_def n)
qed


text \<open>
  Claim C9. The runtime formatter maps every argument that is zero or negative to
  \<open>0s\<close>. Any other argument is decomposed into hours, minutes and seconds, and the
  leading units that are zero are left out: 0 gives \<open>0s\<close>, 45 gives \<open>45s\<close>, 125 gives
  \<open>2m 5s\<close>, 3725 gives \<open>1h 2m 5s\<close> and -5 gives \<open>0s\<close>.
\<close>

theorem fmt_seconds_policy:
  "(sec \<le> 0 \<longrightarrow> fmt_seconds sec = ''0s'')
   \<and> (0 < sec \<longrightarrow> fmt_seconds sec = hms (nat \<lfloor>sec\<rfloor>))
   \<and> fmt_seconds 0 = ''0s''
   \<and> fmt_seconds 45 = ''45s''
   \<and> fmt_seconds 125 = ''2m 5s''
   \<and> fmt_seconds 3725 = ''1h 2m 5s''
   \<and> fmt_seconds (- 5) = ''0s''"
proof -
  have "fmt_seconds 45 = ''45s''"
    by (simp add: fmt_seconds_pos hms_def digits.simps)
  moreover have "fmt_seconds 125 = ''2m 5s''"
    by (simp add: fmt_seconds_pos hms_def digits.simps)
  moreover have "fmt_seconds 3725 = ''1h 2m 5s''"
    by (simp add: fmt_seconds_pos hms_def digits.simps)
  ultimately show ?thesis
    by (simp add: fmt_seconds_nonpos fmt_seconds_pos)
qed

theorem fmt_seconds_policy_witness:
  "fmt_seconds (- 7) = ''0s'' \<and> fmt_seconds 7325 = ''2h 2m 5s'' \<and> fmt_seconds 59 = ''59s''"
  using fmt_seconds_policy [of "- 7"] fmt_seconds_policy [of 7325] fmt_seconds_policy [of 59]
  by (simp add: hms_def digits.simps)



section \<open>The time window\<close>










section \<open>Rounding to two decimals\<close>









section \<open>The rows of a scan\<close>



lemma job_row_builds: "builds (job_row c nm info bs) = int (length bs)"
  by (simp add: job_row_def Let_def)

lemma job_row_failures:
  "failures (job_row c nm info bs) = int (length (filter counts_as_failure bs))"
  by (simp add: job_row_def Let_def)




text \<open>
  Every row that a scan emits is the row of a job with at least one in-window build,
  fetched from the build list after it was cut to \<open>max_builds\<close>.
\<close>

lemma scan_job_SomeD:
  assumes "scan_job jc c m since_dt j = Some r"
  obtains nm info where "job_key j = Some nm" "nm \<noteq> []" "get_job_info jc nm = Inr info"
    "fetch_builds jc nm since_dt (slice_to m (info_builds info)) \<noteq> []"
    "r = job_row c nm info (fetch_builds jc nm since_dt (slice_to m (info_builds info)))"
  using assms
  by (auto simp: scan_job_def Let_def split: option.splits if_splits sum.splits)

lemma scan_jobs_memD:
  "r \<in> set (scan_jobs jc c m since_dt jobs) \<Longrightarrow>
     \<exists>j \<in> set jobs. scan_job jc c m since_dt j = Some r"
  by (induction jobs) (auto split: option.splits)

lemma scan_controller_memD:
  assumes "r \<in> set (scan_controller jenkins user token m since_dt base)"
  shows "\<exists>jc c j. scan_job jc c m since_dt j = Some r"
proof -
  from assms obtain jc c jobs where "r \<in> set (scan_jobs jc c m since_dt jobs)"
    by (auto simp: scan_controller_def Let_def collect_controller_jobs_def split: sum.splits)
  then show ?thesis using scan_jobs_memD by blast
qed

lemma scan_controllers_memD:
  "r \<in> set (scan_controllers jenkins user token m since_dt cs) \<Longrightarrow>
     \<exists>jc c j. scan_job jc c m since_dt j = Some r"
  by (induction cs) (auto dest: scan_controller_memD)

lemma collect_stats_memD:
  assumes "collect_stats jenkins now cs user token v m days = Inr rows" and "r \<in> set rows"
  shows "\<exists>jc c since_dt j. scan_job jc c m since_dt j = Some r"
proof -
  from assms obtain since_dt
    where "r \<in> set (scan_controllers jenkins user token m since_dt cs)"
    by (auto simp: collect_stats_def split: sum.splits)
  then show ?thesis
    using scan_controllers_memD by blast
qed

lemma collect_stats_rowE:
  assumes "collect_stats jenkins now cs user token v m days = Inr rows" and "r \<in> set rows"
  obtains jc c since_dt nm info bs where
    "bs = fetch_builds jc nm since_dt (slice_to m (info_builds info))" "bs \<noteq> []"
    "r = job_row c nm info bs"
proof -
  from collect_stats_memD [OF assms] obtain jc c since_dt j
    where "scan_job jc c m since_dt j = Some r" by blast
  then show ?thesis
    by (elim scan_job_SomeD) (rule that, auto)
qed

lemma scan_jobs_skip:
  "scan_job jc c m since_dt j = None \<Longrightarrow>
     scan_jobs jc c m since_dt (jobs1 @ j # jobs2) = scan_jobs jc c m since_dt (jobs1 @ jobs2)"
  by (induction jobs1) (simp_all split: option.splits)

lemma fetch_builds_outside:
  assumes "\<And>number binfo. Some number \<in> set refs \<Longrightarrow>
      get_build_info jc nm number = Inr binfo \<Longrightarrow>
      within_window (build_timestamp binfo) since_dt \<noteq> Inr True"
  shows "fetch_builds jc nm since_dt refs = []"
  using assms
  by (induction refs) (auto split: option.splits sum.splits)

lemma scan_controllers_append:
  "scan_controllers jenkins user token m since_dt (cs1 @ cs2) =
     scan_controllers jenkins user token m since_dt cs1
       @ scan_controllers jenkins user token m since_dt cs2"
  by (induction cs1) simp_all

section \<open>The example run\<close>

lemma fetch_build:
  "fetch_builds client_a ''build'' (Some since_0) [Some 3, Some 2, Some 1] =
     [build_3, build_2, build_1]"
  by (simp add: client_a_def build_timestamp_def within_window_def fromtimestamp_ms_def
      datetime_min_def datetime_max_def since_0_def build_1_def build_2_def build_3_def)

lemma fetch_nightly: "fetch_builds client_a ''nightly'' (Some since_0) [Some 7] = []"
  by (simp add: client_a_def build_timestamp_def within_window_def fromtimestamp_ms_def
      datetime_min_def datetime_max_def since_0_def build_7_def)

lemma job_row_build:
  "job_row ''https://a.example.com'' ''build'' info_build [build_3, build_2, build_1] = row_a"
  by (simp add: job_row_def Let_def row_a_def info_build_def build_1_def build_2_def
      build_3_def duration_seconds_def counts_as_failure_def str_result_def make_job_url_def
      rstrip_slash_def replace_slash_def round2_def round_half_even_def)

lemma scan_job_build:
  "scan_job client_a ''https://a.example.com'' 200 (Some since_0) job_build = Some row_a"
proof -
  have "get_job_info client_a ''build'' = Inr info_build"
    by (simp add: client_a_def)
  moreover have "slice_to 200 (info_builds info_build) = [Some 3, Some 2, Some 1]"
    by (simp add: slice_to_def info_build_def)
  ultimately show ?thesis
    by (simp add: scan_job_def job_key_def job_build_def Let_def fetch_build job_row_build
        del: fetch_builds.simps)
qed

lemma scan_job_nightly:
  "scan_job client_a ''https://a.example.com'' 200 (Some since_0) job_nightly = None"
proof -
  have "get_job_info client_a ''nightly'' = Inr info_nightly"
    by (simp add: client_a_def)
  moreover have "slice_to 200 (info_builds info_nightly) = [Some 7]"
    by (simp add: slice_to_def info_nightly_def)
  ultimately show ?thesis
    by (simp add: scan_job_def job_key_def job_nightly_def Let_def fetch_nightly
        del: fetch_builds.simps)
qed

lemma scan_controller_a:
  "scan_controller two_controllers ''user'' ''token'' 200 (Some since_0)
     ''https://a.example.com/'' = [row_a]"
proof -
  have "rstrip_slash ''https://a.example.com/'' = ''https://a.example.com''"
    by (simp add: rstrip_slash_def)
  moreover have "get_whoami client_a = Inr ()"
    and "get_all_jobs client_a = Inr [job_build, job_nightly]"
    by (simp_all add: client_a_def)
  ultimately show ?thesis
    by (simp add: scan_controller_def Let_def two_controllers_def collect_controller_jobs_def
        scan_job_build scan_job_nightly)
qed

lemma whoami_b:
  "get_whoami (two_controllers (rstrip_slash ''https://b.example.com'') ''user'' ''token'') =
     Inl JenkinsException"
  by (simp add: rstrip_slash_def two_controllers_def client_b_def)

lemma window_start_0: "window_start now_0 30 = Inr (Some since_0)"
  by (simp add: window_start_def minus_days_def datetime_min_def datetime_max_def now_0_def
      since_0_def)

lemma example_run:
  "collect_stats two_controllers now_0 [''https://a.example.com/''] ''user'' ''token'' False
     200 30 = Inr [row_a]"
  by (simp add: collect_stats_def window_start_0 scan_controller_a)

section \<open>Failure counts and rates\<close>

lemma counts_as_failure_iff:
  "counts_as_failure b \<longleftrightarrow>
     result b \<notin> {Some ''SUCCESS'', Some ''ABORTED'', Some ''None'', None}"
  by (cases "result b") (auto simp: counts_as_failure_def str_result_def)

text \<open>
  Claim C2. A build counts toward the failure count of its job's row exactly when its
  result is not SUCCESS, not ABORTED and not unknown: unknown is a result that is
  missing or null, which Python prints as \<open>None\<close>, and the text \<open>None\<close> itself. A build
  with the result ABORTED or with no result is never counted, a build with the result
  UNSTABLE or FAILURE always is.
\<close>

theorem failure_count_policy:
  "failures (job_row c nm info bs) =
      int (length (filter
        (\<lambda>b. result b \<notin> {Some ''SUCCESS'', Some ''ABORTED'', Some ''None'', None}) bs))
   \<and> (counts_as_failure b \<longleftrightarrow>
        result b \<notin> {Some ''SUCCESS'', Some ''ABORTED'', Some ''None'', None})
   \<and> (result b = Some ''ABORTED'' \<or> result b = None \<longrightarrow> \<not> counts_as_failure b)
   \<and> (result b = Some ''UNSTABLE'' \<or> result b = Some ''FAILURE'' \<longrightarrow> counts_as_failure b)"
proof -
  have "filter counts_as_failure bs =
      filter (\<lambda>b. result b \<notin> {Some ''SUCCESS'', Some ''ABORTED'', Some ''None'', None}) bs"
    by (rule filter_cong) (simp_all only: counts_as_failure_iff)
  then have "failures (job_row c nm info bs) =
      int (length (filter
        (\<lambda>b. result b \<notin> {Some ''SUCCESS'', Some ''ABORTED'', Some ''None'', None}) bs))"
    by (simp only: job_row_failures)
  moreover have "result b = Some ''ABORTED'' \<or> result b = None \<longrightarrow> \<not> counts_as_failure b"
    by (auto simp: counts_as_failure_iff)
  moreover have
    "result b = Some ''UNSTABLE'' \<or> result b = Some ''FAILURE'' \<longrightarrow> counts_as_failure b"
    by (auto simp: counts_as_failure_iff)
  ultimately show ?thesis
    using counts_as_failure_iff [of b] by blast
qed

theorem failure_count_policy_witness:
  "failures (job_row ''https://a.example.com'' ''build'' info_build
      [build_3, build_2, build_1, build_7]) = 2
   \<and> \<not> counts_as_failure build_3 \<and> counts_as_failure build_2 \<and> counts_as_failure build_7"
  using failure_count_policy [of "''https://a.example.com''" "''build''" info_build
      "[build_3, build_2, build_1, build_7]" build_3]
    failure_count_policy [of "''https://a.example.com''" "''build''" info_build "[]" build_2]
    failure_count_policy [of "''https://a.example.com''" "''build''" info_build "[]" build_7]
  by (simp add: build_1_def build_2_def build_3_def build_7_def)

text \<open>
  Claim C4. In every row that a run emits, the failure count is at least 0 and at most
  the build count.
\<close>

theorem failure_count_bounded:
  assumes "collect_stats jenkins now cs user token v m days = Inr rows" and "r \<in> set rows"
  shows "0 \<le> failures r \<and> failures r \<le> builds r"
proof -
  from assms obtain c nm info bs where r: "r = job_row c nm info bs"
    by (rule collect_stats_rowE)
  have "length (filter counts_as_failure bs) \<le> length bs"
    by (rule length_filter_le)
  then show ?thesis
    unfolding r job_row_failures job_row_builds by simp
qed

theorem failure_count_bounded_witness:
  "collect_stats two_controllers now_0 [''https://a.example.com/''] ''user'' ''token'' False
     200 30 = Inr [row_a]
   \<and> row_a \<in> set [row_a] \<and> 0 \<le> failures row_a \<and> failures row_a \<le> builds row_a"
  using failure_count_bounded [OF example_run, of row_a] example_run by simp



section \<open>Jobs without builds in the window, and the cap on builds\<close>

text \<open>
  Claim C6. When no build of a job remains after fetching and filtering by the time
  window, for example because all its builds lie outside the window, the scan emits no
  row for that job and goes on with the next job; every row that a run emits has a
  build count of at least 1.
\<close>

theorem no_row_without_builds:
  "(job_key j = Some nm \<and> get_job_info jc nm = Inr info
      \<and> fetch_builds jc nm since_dt (slice_to m (info_builds info)) = []
     \<longrightarrow> scan_job jc c m since_dt j = None
         \<and> scan_jobs jc c m since_dt (jobs1 @ j # jobs2) =
             scan_jobs jc c m since_dt (jobs1 @ jobs2))
   \<and> ((\<forall>number binfo.
          Some number \<in> set refs \<and> get_build_info jc nm number = Inr binfo \<longrightarrow>
          within_window (build_timestamp binfo) since_dt = Inr False)
     \<longrightarrow> fetch_builds jc nm since_dt refs = [])
   \<and> (collect_stats jenkins now cs user token v m days = Inr rows \<and> r \<in> set rows
     \<longrightarrow> 1 \<le> builds r)"
proof (intro conjI impI)
  assume "job_key j = Some nm \<and> get_job_info jc nm = Inr info
      \<and> fetch_builds jc nm since_dt (slice_to m (info_builds info)) = []"
  then show none: "scan_job jc c m since_dt j = None"
    by (simp add: scan_job_def)
  then show "scan_jobs jc c m since_dt (jobs1 @ j # jobs2) =
      scan_jobs jc c m since_dt (jobs1 @ jobs2)"
    by (rule scan_jobs_skip)
next
  assume "\<forall>number binfo.
      Some number \<in> set refs \<and> get_build_info jc nm number = Inr binfo \<longrightarrow>
      within_window (build_timestamp binfo) since_dt = Inr False"
  then show "fetch_builds jc nm since_dt refs = []"
    by (intro fetch_builds_outside) auto
next
  assume "collect_stats jenkins now cs user token v m days = Inr rows \<and> r \<in> set rows"
  then obtain c nm info bs where r: "r = job_row c nm info bs" and bs: "bs \<noteq> []"
    by (auto elim: collect_stats_rowE)
  from bs have "0 < length bs" by simp
  then have "1 \<le> int (length bs)" by linarith
  then show "1 \<le> builds r"
    by (simp only: r job_row_builds)
qed

theorem no_row_without_builds_witness:
  "fetch_builds client_a ''nightly'' (Some since_0) (slice_to 200 (info_builds info_nightly)) = []
   \<and> scan_job client_a ''https://a.example.com'' 200 (Some since_0) job_nightly = None
   \<and> scan_jobs client_a ''https://a.example.com'' 200 (Some since_0) [job_build, job_nightly] =
       scan_jobs client_a ''https://a.example.com'' 200 (Some since_0) [job_build]
   \<and> 1 \<le> builds row_a"
proof -
  have refs: "slice_to 200 (info_builds info_nightly) = [Some 7]"
    by (simp add: slice_to_def info_nightly_def)
  have "job_key job_nightly = Some ''nightly''"
    by (simp add: job_key_def job_nightly_def)
  moreover have "get_job_info client_a ''nightly'' = Inr info_nightly"
    by (simp add: client_a_def)
  moreover have "\<forall>number binfo.
      Some number \<in> set [Some 7] \<and> get_build_info client_a ''nightly'' number = Inr binfo \<longrightarrow>
      within_window (build_timestamp binfo) (Some since_0) = Inr False"
    by (simp add: client_a_def build_7_def build_timestamp_def within_window_def
        fromtimestamp_ms_def datetime_min_def datetime_max_def since_0_def)
  ultimately show ?thesis
    using no_row_without_builds [of job_nightly "''nightly''" client_a info_nightly
        "Some since_0" 200 "''https://a.example.com''" "[job_build]" "[]" "[Some 7]"
        two_controllers now_0 "[''https://a.example.com/'']" "''user''" "''token''" False 30
        "[row_a]" row_a]
      example_run
    by (simp add: refs del: fetch_builds.simps scan_jobs.simps)
qed



section \<open>A controller that refuses the credentials\<close>

text \<open>
  Claim C7. When \<^verbatim>\<open>get_whoami\<close> fails for one controller, that controller adds no
  row and the run goes on: its result is the result of the same run without that
  controller, and holds the rows collected from every other controller.
\<close>

theorem auth_failure_skips_controller:
  assumes "get_whoami (jenkins (rstrip_slash b) user token) = Inl e"
  shows "scan_controller jenkins user token m since_dt b = []
    \<and> collect_stats jenkins now (cs1 @ b # cs2) user token v m days
        = collect_stats jenkins now (cs1 @ cs2) user token v m days
    \<and> (window_start now days = Inr since_dt \<longrightarrow>
         collect_stats jenkins now (cs1 @ b # cs2) user token v m days
           = Inr (scan_controllers jenkins user token m since_dt cs1
                  @ scan_controllers jenkins user token m since_dt cs2))"
proof -
  have skip: "scan_controller jenkins user token m s b = []" for s
    using assms by (simp add: scan_controller_def Let_def)
  then show ?thesis
    by (simp add: collect_stats_def scan_controllers_append split: sum.splits)
qed

theorem auth_failure_skips_controller_witness:
  "get_whoami (two_controllers (rstrip_slash ''https://b.example.com'') ''user'' ''token'') =
     Inl JenkinsException
   \<and> scan_controller two_controllers ''user'' ''token'' 200 (Some since_0)
       ''https://b.example.com'' = []
   \<and> collect_stats two_controllers now_0 [''https://a.example.com/'', ''https://b.example.com'']
       ''user'' ''token'' False 200 30 = Inr [row_a]"
  using auth_failure_skips_controller [of two_controllers "''https://b.example.com''"
      "''user''" "''token''" JenkinsException 200 "Some since_0" now_0
      "[''https://a.example.com/'']" "[]" False 30]
    whoami_b example_run
  by simp

section \<open>The ranked output\<close>

lemma sort_key_const: "\<forall>x\<in>set xs. f x = c \<Longrightarrow> sort_key f xs = xs"
proof (induction xs)
  case Nil
  then show ?case by simp
next
  case (Cons x xs)
  then have "sort_key f (x # xs) = insort_key f x xs" by simp
  also have "\<dots> = x # xs" using Cons.prems by (cases xs) simp_all
  finally show ?case .
qed

lemma sorted_wrt_adjacent:
  fixes key :: "'a \<Rightarrow> real"
  shows "sorted_wrt (\<lambda>a b. key b \<le> key a) xs \<Longrightarrow> Suc i < length xs \<Longrightarrow>
    key (xs ! Suc i) \<le> key (xs ! i)"
  using sorted_wrt_nth_less [of "\<lambda>a b. key b \<le> key a" xs i "Suc i"] by simp

text \<open>The stable order is one of the orders that line 182 may return.\<close>

lemma stable_descending_admitted:
  "sort_values_descending key df (stable_descending key df)"
proof -
  have "sorted (map (\<lambda>r. - key r) (sort_key (\<lambda>r. - key r) df))"
    by (rule sorted_sort_key)
  then have "sorted_wrt (\<lambda>a b. key b \<le> key a) (sort_key (\<lambda>r. - key r) df)"
    by (simp add: sorted_map)
  then show ?thesis
    by (simp add: sort_values_descending_def stable_descending_def)
qed

lemma tied_builds: "r \<in> set tied_rows \<Longrightarrow> builds r = 5"
  by (auto simp: tied_rows_def tied_row_def)

lemma tied_rank:
  "rank By_builds 25 tied_rows tied_ranked (map preview_row tied_ranked)"
proof -
  have "mset tied_ranked = mset tied_rows"
    by (simp add: tied_ranked_def tied_rows_def)
  moreover have five: "\<forall>r\<in>set tied_ranked. builds r = 5"
    by (simp add: tied_ranked_def tied_row_def)
  have "sorted_wrt (\<lambda>a b. column By_builds b \<le> column By_builds a) tied_ranked"
    by (rule sorted_wrt_mono_rel [of _ "\<lambda>a b. True"]) (simp_all add: five)
  moreover have "slice_to 25 tied_ranked = tied_ranked"
    by (simp add: slice_to_def tied_ranked_def)
  ultimately show ?thesis
    by (simp add: rank_def sort_values_descending_def)
qed

text \<open>
  Claim C1, as amended. The ranked output holds the rows of the input, each as often as
  the input does, in descending order of the chosen sort key: for all adjacent rows
  (a, b) of the ranked output, and so for every row a that stands before a row b, the
  key of a is at least the key of b. The order among rows with equal keys is not fixed.
  For a \<open>top\<close> that is not negative, the preview is made of exactly the first \<open>top\<close>
  rows of that sorted list.
\<close>

theorem ranked_output_descending:
  assumes "rank sort_by top_n rows df_sorted top_preview"
  shows "(\<forall>i. Suc i < length df_sorted \<longrightarrow>
            column sort_by (df_sorted ! Suc i) \<le> column sort_by (df_sorted ! i))
    \<and> (\<forall>i j. i < j \<and> j < length df_sorted \<longrightarrow>
            column sort_by (df_sorted ! j) \<le> column sort_by (df_sorted ! i))
    \<and> mset df_sorted = mset rows
    \<and> length df_sorted = length rows
    \<and> (0 \<le> top_n \<longrightarrow> top_preview = map preview_row (take (nat top_n) df_sorted))"
proof -
  from assms have perm: "mset df_sorted = mset rows"
    and desc: "sorted_wrt (\<lambda>a b. column sort_by b \<le> column sort_by a) df_sorted"
    and prev: "top_preview = map preview_row (slice_to top_n df_sorted)"
    by (simp_all add: rank_def sort_values_descending_def)
  from desc have "\<forall>i. Suc i < length df_sorted \<longrightarrow>
      column sort_by (df_sorted ! Suc i) \<le> column sort_by (df_sorted ! i)"
    by (simp add: sorted_wrt_adjacent)
  moreover from desc have "\<forall>i j. i < j \<and> j < length df_sorted \<longrightarrow>
      column sort_by (df_sorted ! j) \<le> column sort_by (df_sorted ! i)"
    by (simp add: sorted_wrt_iff_nth_less)
  moreover from perm have "length df_sorted = length rows"
    by (rule mset_eq_length)
  moreover from prev
  have "0 \<le> top_n \<longrightarrow> top_preview = map preview_row (take (nat top_n) df_sorted)"
    by (simp add: slice_to_def)
  ultimately show ?thesis
    using perm by blast
qed

theorem ranked_output_descending_witness:
  "rank By_builds 1 [row_a, tied_row 0] [tied_row 0, row_a] [preview_row (tied_row 0)]
   \<and> column By_builds ([tied_row 0, row_a] ! Suc 0) \<le> column By_builds ([tied_row 0, row_a] ! 0)
   \<and> mset [tied_row 0, row_a] = mset [row_a, tied_row 0]
   \<and> preview_row (tied_row 0) =
       (''https://a.example.com'', ''job-0'', 5, 0, ''1m 0s'', ''1m 0s'')"
proof -
  have r: "rank By_builds 1 [row_a, tied_row 0] [tied_row 0, row_a] [preview_row (tied_row 0)]"
    by (simp add: rank_def sort_values_descending_def slice_to_def row_a_def tied_row_def)
  have "preview_row (tied_row 0) =
      (''https://a.example.com'', ''job-0'', 5, 0, ''1m 0s'', ''1m 0s'')"
    by (simp add: preview_row_def tied_row_def digits.simps fmt_seconds_pos hms_def)
  with r ranked_output_descending [OF r] show ?thesis
    by simp
qed

text \<open>
  The claim as first stated also fixes the order of rows with equal keys to the order of
  the input. Line 182 does not: for eighteen jobs with five builds each it may return
  the order \<open>tied_ranked\<close>, which is not the stable one.
\<close>

theorem ranked_output_not_stable:
  "rank By_builds 25 tied_rows tied_ranked (map preview_row tied_ranked)
   \<and> tied_ranked \<noteq> stable_descending (column By_builds) tied_rows"
proof -
  have "stable_descending (column By_builds) tied_rows = tied_rows"
    unfolding stable_descending_def
    by (rule sort_key_const [of _ _ "- 5"]) (simp add: tied_builds)
  moreover have "tied_ranked ! 2 \<noteq> tied_rows ! 2"
    by (simp add: tied_ranked_def tied_rows_def tied_row_def digits.simps)
  ultimately have "tied_ranked \<noteq> stable_descending (column By_builds) tied_rows"
    by auto
  with tied_rank show ?thesis by simp
qed

end
